theory Spec2Isabelle
  imports Main
begin

section \<open>The log trampoline of wayland-backend-sys (client/log\_shim.c)\<close>

text \<open>
  The file holds one function,
  \<^verbatim>\<open>
  void wl_log_trampoline_to_rust_client(char const *fmt, va_list list) {
      char buffer[256];
      int ret = vsnprintf(buffer, 256, fmt, list);
      if (ret <= 0) {
          // forward the unformatted message, in a best-effort attempt
          wl_log_rust_logger_client(fmt);
      } else {
          wl_log_rust_logger_client(buffer);
      }
  }
  \<close>
  It renders a printf-style message into a buffer on its stack and hands a pointer to the
  logger on the Rust side, \<open>wl_log_rust_logger_client\<close>, which reads a C string there.
\<close>

subsection \<open>C strings and character arrays\<close>

text \<open>
  A \<open>char\<close> array is a list of bytes. A C string is the run of bytes before the first
  NUL byte, so a string held as a \<open>string\<close> is well formed when it has no NUL inside.
\<close>

definition NUL :: char where
  "NUL = CHR 0x00"

definition c_str :: "char list \<Rightarrow> string" where
  "c_str mem = takeWhile (\<lambda>c. c \<noteq> NUL) mem"

definition cstring :: "string \<Rightarrow> bool" where
  "cstring s = (NUL \<notin> set s)"

text \<open>
  \<open>char buffer[256]\<close> is not initialised: its bytes are whatever the stack held. The
  stack's old contents are the function \<open>junk\<close>, any function at all.
\<close>

definition uninitialised :: "(nat \<Rightarrow> char) \<Rightarrow> nat \<Rightarrow> char list" where
  "uninitialised junk n = map junk [0..<n]"

text \<open>
  Storing bytes at the start of an array. Writing more bytes than the array holds is a
  write out of bounds, which C leaves undefined: here it is the error \<open>Out_of_bounds\<close>.
\<close>

datatype error = Out_of_bounds

definition store :: "char list \<Rightarrow> char list \<Rightarrow> error + char list" where
  "store obj bytes =
     (if length bytes \<le> length obj then Inr (bytes @ drop (length bytes) obj)
      else Inl Out_of_bounds)"

subsection \<open>The variadic arguments and a printf renderer\<close>

text \<open>
  The \<open>va_list\<close> is an opaque handle in the source. Its content is the list of argument
  values that the conversions of the format consume in order.
\<close>

datatype arg = Int_arg int | Uint_arg nat | Char_arg char | Str_arg string

type_synonym va_list = "arg list"

text \<open>
  A formatter's ideal output: the fully substituted text for a format and its arguments,
  before any truncation, or \<open>None\<close> when formatting fails. The trampoline is studied for
  every such function, since the source leaves the conversions to the platform.
\<close>

type_synonym renderer = "string \<Rightarrow> va_list \<Rightarrow> string option"

text \<open>
  Modelled from the spec: the platform's printf conversions, which are libc code and not
  part of the repository (``standard printf-style formatting semantics''). The fragment
  rendered here is \<open>%%\<close>, \<open>%d\<close>, \<open>%i\<close>, \<open>%u\<close>, \<open>%c\<close> and \<open>%s\<close> without flags, width or
  precision, following ISO C 7.21.6.1; every other directive, a missing argument and an
  argument of the wrong type give \<open>None\<close>. It serves the concrete examples; the general
  theorems hold for every renderer.
\<close>

definition digit_char :: "nat \<Rightarrow> char" where
  "digit_char d = ''0123456789'' ! d"

fun show_nat :: "nat \<Rightarrow> string" where
  "show_nat n = (if n < 10 then [digit_char n] else show_nat (n div 10) @ [digit_char (n mod 10)])"

declare show_nat.simps [simp del]

definition show_int :: "int \<Rightarrow> string" where
  "show_int i = (if i < 0 then CHR ''-'' # show_nat (nat (- i)) else show_nat (nat i))"

fun conversion :: "char \<Rightarrow> arg \<Rightarrow> string option" where
  "conversion k (Int_arg i) = (if k = CHR ''d'' \<or> k = CHR ''i'' then Some (show_int i) else None)"
| "conversion k (Uint_arg n) = (if k = CHR ''u'' then Some (show_nat n) else None)"
| "conversion k (Char_arg c) = (if k = CHR ''c'' then Some [c] else None)"
| "conversion k (Str_arg s) = (if k = CHR ''s'' then Some s else None)"

fun printf_render :: renderer where
  "printf_render [] ap = Some []"
| "printf_render [c] ap = (if c = CHR ''%'' then None else Some [c])"
| "printf_render (c # k # fmt) ap =
     (if c \<noteq> CHR ''%'' then map_option ((#) c) (printf_render (k # fmt) ap)
      else if k = CHR ''%'' then map_option ((#) k) (printf_render fmt ap)
      else (case ap of
              [] \<Rightarrow> None
            | a # ap' \<Rightarrow>
                (case conversion k a of
                   None \<Rightarrow> None
                 | Some s \<Rightarrow> map_option ((@) s) (printf_render fmt ap'))))"

subsection \<open>vsnprintf\<close>

text \<open>
  Modelled from the spec: \<open>vsnprintf\<close>, which is libc code and not part of the
  repository (``printf-style formatters report the size that would have been written even
  when truncated''; ``same truncation behavior as the platform's formatting routine'').
  The platform's routine is the one of ISO C 7.21.6.12 and POSIX: with \<open>n > 0\<close> it
  stores the first \<open>n - 1\<close> bytes of the output and then a NUL byte, and it returns the
  length of the whole output; it returns a negative value when formatting fails. The
  value returned is a C \<open>int\<close>, so a length above \<open>INT_MAX\<close> cannot be returned: POSIX
  makes the call fail then (EOVERFLOW) with a negative value, as glibc and musl do.
  On failure the array's content is indeterminate in C; the caller below never reads it
  then, and the model leaves it as it was.

  The array \<open>s\<close> is passed with its real capacity, \<open>length s\<close>, apart from the size \<open>n\<close>
  that the caller claims for it: a caller that claims more than the array holds gets
  \<open>Out_of_bounds\<close>.
\<close>

definition INT_MAX :: nat where
  "INT_MAX = 2147483647"

definition vsnprintf_bytes :: "nat \<Rightarrow> string \<Rightarrow> char list" where
  "vsnprintf_bytes n out = (if n = 0 then [] else take (n - 1) out @ [NUL])"

definition vsnprintf :: "renderer \<Rightarrow> char list \<Rightarrow> nat \<Rightarrow> string \<Rightarrow> va_list \<Rightarrow> error + (int \<times> char list)" where
  "vsnprintf render s n fmt ap =
     (case render fmt ap of
        None \<Rightarrow> Inr (- 1, s)
      | Some out \<Rightarrow>
          if INT_MAX < length out then Inr (- 1, s)
          else (case store s (vsnprintf_bytes n out) of
                  Inl e \<Rightarrow> Inl e
                | Inr s' \<Rightarrow> Inr (int (length out), s')))"

subsection \<open>The sink and the trampoline\<close>

text \<open>
  \<open>wl_log_rust_logger_client\<close> is declared and not defined in the file: it is the Rust
  logger. A call of it is recorded with the pointer it was given: either the caller's
  format string, or the local buffer with its 256 bytes. The logger reads a C string at
  the pointer.
\<close>

datatype msg = Fmt_ptr string | Buffer_ptr "char list"

datatype call = wl_log_rust_logger_client msg

fun received :: "call \<Rightarrow> string" where
  "received (wl_log_rust_logger_client (Fmt_ptr s)) = s"
| "received (wl_log_rust_logger_client (Buffer_ptr b)) = c_str b"

text \<open>
  The trampoline returns nothing; what it does is the list of calls of the sink it makes,
  in order. \<open>Inl\<close> is a write outside \<open>buffer\<close>.
\<close>

definition wl_log_trampoline_to_rust_client ::
  "renderer \<Rightarrow> (nat \<Rightarrow> char) \<Rightarrow> string \<Rightarrow> va_list \<Rightarrow> error + call list" where
  "wl_log_trampoline_to_rust_client render junk fmt list =
     (let buffer = uninitialised junk 256 in
      case vsnprintf render buffer 256 fmt list of
        Inl e \<Rightarrow> Inl e
      | Inr (ret, buffer') \<Rightarrow>
          if ret \<le> 0 then Inr [wl_log_rust_logger_client (Fmt_ptr fmt)]
          else Inr [wl_log_rust_logger_client (Buffer_ptr buffer')])"

text \<open>The strings the logger reads during one call of the trampoline, in order.\<close>

definition log_output :: "renderer \<Rightarrow> (nat \<Rightarrow> char) \<Rightarrow> string \<Rightarrow> va_list \<Rightarrow> error + string list" where
  "log_output render junk fmt list =
     map_sum id (map received) (wl_log_trampoline_to_rust_client render junk fmt list)"

text \<open>A sample of old stack contents for the concrete examples.\<close>

definition stale :: "nat \<Rightarrow> char" where
  "stale i = CHR ''#''"

section \<open>Basic facts\<close>

lemma length_uninitialised [simp]: "length (uninitialised junk n) = n"
  by (simp add: uninitialised_def)

lemma length_vsnprintf_bytes: "length (vsnprintf_bytes n out) \<le> n"
  by (auto simp: vsnprintf_bytes_def)

lemma c_str_cut: "c_str (xs @ NUL # rest) = c_str xs"
  by (induction xs) (simp_all add: c_str_def)

lemma c_str_cstring: "cstring s \<Longrightarrow> c_str s = s"
  by (auto simp: c_str_def cstring_def)

lemma vsnprintf_256:
  "vsnprintf render (uninitialised junk 256) 256 fmt ap =
     (case render fmt ap of
        None \<Rightarrow> Inr (- 1, uninitialised junk 256)
      | Some out \<Rightarrow>
          if INT_MAX < length out then Inr (- 1, uninitialised junk 256)
          else Inr (int (length out),
                    take 255 out @ NUL # drop (Suc (min (length out) 255)) (uninitialised junk 256)))"
  by (simp add: vsnprintf_def store_def vsnprintf_bytes_def split: option.split)

lemma trampoline_failed:
  "render fmt ap = None \<Longrightarrow>
   wl_log_trampoline_to_rust_client render junk fmt ap = Inr [wl_log_rust_logger_client (Fmt_ptr fmt)]"
  by (simp add: wl_log_trampoline_to_rust_client_def vsnprintf_256)

lemma trampoline_overflow:
  "render fmt ap = Some out \<Longrightarrow> INT_MAX < length out \<Longrightarrow>
   wl_log_trampoline_to_rust_client render junk fmt ap = Inr [wl_log_rust_logger_client (Fmt_ptr fmt)]"
  by (simp add: wl_log_trampoline_to_rust_client_def vsnprintf_256)

lemma trampoline_empty:
  "render fmt ap = Some [] \<Longrightarrow>
   wl_log_trampoline_to_rust_client render junk fmt ap = Inr [wl_log_rust_logger_client (Fmt_ptr fmt)]"
  by (simp add: wl_log_trampoline_to_rust_client_def vsnprintf_256)

lemma trampoline_rendered:
  "render fmt ap = Some out \<Longrightarrow> out \<noteq> [] \<Longrightarrow> length out \<le> INT_MAX \<Longrightarrow>
   wl_log_trampoline_to_rust_client render junk fmt ap =
     Inr [wl_log_rust_logger_client
            (Buffer_ptr (take 255 out @ NUL # drop (Suc (min (length out) 255)) (uninitialised junk 256)))]"
  by (simp add: wl_log_trampoline_to_rust_client_def vsnprintf_256)

lemma printf_render_plain: "CHR ''%'' \<notin> set fmt \<Longrightarrow> printf_render fmt ap = Some fmt"
  by (induction fmt ap rule: printf_render.induct) auto

lemma log_output_cases:
  "log_output render junk fmt ap =
     (case render fmt ap of
        None \<Rightarrow> Inr [fmt]
      | Some out \<Rightarrow>
          if out = [] \<or> INT_MAX < length out then Inr [fmt]
          else Inr [c_str (take 255 out)])"
  by (simp add: log_output_def wl_log_trampoline_to_rust_client_def vsnprintf_256 c_str_cut
      split: option.split)

lemma rendered_buffer:
  assumes "b = take 255 out @ NUL # drop (Suc (min (length out) 255)) (uninitialised junk 256)"
  shows "length b = 256" and "take (min (length out) 255) b = take 255 out"
    and "b ! min (length out) 255 = NUL"
proof -
  have l: "length (take 255 out) = min (length out) 255" by simp
  show "length b = 256" unfolding assms by (simp add: min_def)
  show "take (min (length out) 255) b = take 255 out" unfolding assms by (simp add: min_def)
  show "b ! min (length out) 255 = NUL" unfolding assms using l
    by (metis nth_append_length)
qed

section \<open>The claims\<close>

text \<open>
  C1 (amended). For every format string and argument list whose fully substituted result
  has between 1 and 255 characters, the trampoline passes the buffer to the sink, and the
  buffer holds exactly that result followed by a NUL byte; when the result is a C string
  (no NUL byte inside), the string the sink reads is exactly the result. For instance
  \<open>value=%d\<close> with the argument 42 reaches the sink as \<open>value=42\<close>. An empty result is
  excluded: the claim as written covers it and fails there, as shown after the witness.
\<close>

theorem rendered_message_delivered:
  assumes "render fmt ap = Some r" and "1 \<le> length r" and "length r \<le> 255"
  shows "(\<exists>b. wl_log_trampoline_to_rust_client render junk fmt ap
               = Inr [wl_log_rust_logger_client (Buffer_ptr b)]
            \<and> length b = 256 \<and> take (length r) b = r \<and> b ! length r = NUL)
         \<and> (cstring r \<longrightarrow> log_output render junk fmt ap = Inr [r])"
proof -
  define b where "b = take 255 r @ NUL # drop (Suc (min (length r) 255)) (uninitialised junk 256)"
  from assms have ne: "r \<noteq> []" and im: "length r \<le> INT_MAX" and m: "min (length r) 255 = length r"
    and t: "take 255 r = r"
    by (auto simp: INT_MAX_def)
  have "wl_log_trampoline_to_rust_client render junk fmt ap
          = Inr [wl_log_rust_logger_client (Buffer_ptr b)]"
    unfolding b_def using assms(1) ne im by (rule trampoline_rendered)
  moreover have "length b = 256" "take (length r) b = r" "b ! length r = NUL"
    using rendered_buffer [OF b_def] m t by simp_all
  moreover have "cstring r \<longrightarrow> log_output render junk fmt ap = Inr [r]"
    using assms(1) ne im t by (simp add: log_output_cases c_str_cstring)
  ultimately show ?thesis by blast
qed

theorem rendered_message_delivered_witness:
  "printf_render ''value=%d'' [Int_arg 42] = Some ''value=42''
   \<and> log_output printf_render stale ''value=%d'' [Int_arg 42] = Inr [''value=42'']"
proof -
  have r: "printf_render ''value=%d'' [Int_arg 42] = Some ''value=42''" by code_simp
  have c: "cstring ''value=42''" by (simp add: cstring_def NUL_def)
  show ?thesis
    using rendered_message_delivered [of printf_render "''value=%d''" "[Int_arg 42]" "''value=42''" stale] r c
    by simp
qed

text \<open>
  C1 as written fails for an empty result: \<open>%s\<close> with the empty string renders to the
  empty string, of length 0, \<open>vsnprintf\<close> returns 0, and the sink reads \<open>%s\<close>.
\<close>

theorem empty_result_not_delivered:
  "printf_render ''%s'' [Str_arg ''''] = Some ''''
   \<and> length ('''' :: string) \<le> 255
   \<and> log_output printf_render stale ''%s'' [Str_arg ''''] = Inr [''%s'']
   \<and> ''%s'' \<noteq> ''''"
  by (simp add: log_output_cases)

text \<open>
  C2. In every call the sink is given the pointer to the format string exactly when the
  value \<open>vsnprintf\<close> returned is at most 0, and the buffer that \<open>vsnprintf\<close> filled exactly
  when that value is positive; the string read from the format pointer is the format
  itself, unsubstituted. The claim is about which of the two pointers is passed: a
  rendered buffer may well hold the same characters as the format.
\<close>

theorem fallback_iff_nonpositive:
  "\<exists>ret b. vsnprintf render (uninitialised junk 256) 256 fmt ap = Inr (ret, b)
     \<and> (ret \<le> 0 \<longleftrightarrow> wl_log_trampoline_to_rust_client render junk fmt ap
                       = Inr [wl_log_rust_logger_client (Fmt_ptr fmt)])
     \<and> (0 < ret \<longleftrightarrow> wl_log_trampoline_to_rust_client render junk fmt ap
                       = Inr [wl_log_rust_logger_client (Buffer_ptr b)])
     \<and> received (wl_log_rust_logger_client (Fmt_ptr fmt)) = fmt"
  by (simp add: wl_log_trampoline_to_rust_client_def vsnprintf_256 split: option.split)

text \<open>
  C3 (amended). For every format string and argument list whose fully substituted result
  has more than 255 and at most \<open>INT_MAX\<close> (2147483647) characters, \<open>vsnprintf\<close> returns
  that length, which is positive, the fallback is not taken, and the sink is given the
  buffer, which holds the first 255 characters of the result followed by a NUL byte; when
  those 255 characters are a C string, the string the sink reads is exactly that prefix.
  Results longer than \<open>INT_MAX\<close> are excluded: the claim as written covers them and
  fails there, as shown after the witness.
\<close>

theorem long_message_truncated:
  assumes "render fmt ap = Some r" and "255 < length r" and "length r \<le> INT_MAX"
  shows "\<exists>b. vsnprintf render (uninitialised junk 256) 256 fmt ap = Inr (int (length r), b)
           \<and> 0 < int (length r)
           \<and> wl_log_trampoline_to_rust_client render junk fmt ap
               = Inr [wl_log_rust_logger_client (Buffer_ptr b)]
           \<and> length b = 256 \<and> take 255 b = take 255 r \<and> b ! 255 = NUL
           \<and> (cstring (take 255 r) \<longrightarrow> log_output render junk fmt ap = Inr [take 255 r])"
proof -
  define b where "b = take 255 r @ NUL # drop (Suc (min (length r) 255)) (uninitialised junk 256)"
  from assms have ne: "r \<noteq> []" and m: "min (length r) 255 = 255" and ni: "\<not> INT_MAX < length r"
    by auto
  have "vsnprintf render (uninitialised junk 256) 256 fmt ap = Inr (int (length r), b)"
    using assms(1) ni by (simp add: vsnprintf_256 b_def)
  moreover have "wl_log_trampoline_to_rust_client render junk fmt ap
          = Inr [wl_log_rust_logger_client (Buffer_ptr b)]"
    unfolding b_def using assms(1) ne assms(3) by (rule trampoline_rendered)
  moreover have "length b = 256" "take 255 b = take 255 r" "b ! 255 = NUL"
    using rendered_buffer [OF b_def] m by simp_all
  moreover have "cstring (take 255 r) \<longrightarrow> log_output render junk fmt ap = Inr [take 255 r]"
    using assms(1) ne ni by (simp add: log_output_cases c_str_cstring)
  moreover have "0 < int (length r)" using ne by simp
  ultimately show ?thesis by blast
qed

theorem long_message_truncated_witness:
  "printf_render ''%s'' [Str_arg (replicate 300 (CHR ''a''))] = Some (replicate 300 (CHR ''a''))
   \<and> log_output printf_render stale ''%s'' [Str_arg (replicate 300 (CHR ''a''))]
       = Inr [replicate 255 (CHR ''a'')]"
proof -
  have r: "printf_render ''%s'' [Str_arg (replicate 300 (CHR ''a''))] = Some (replicate 300 (CHR ''a''))"
    by simp
  have l: "255 < length (replicate 300 (CHR ''a''))" "length (replicate 300 (CHR ''a'')) \<le> INT_MAX"
    by (simp_all add: INT_MAX_def)
  have t: "take 255 (replicate 300 (CHR ''a'')) = replicate 255 (CHR ''a'')"
    by (simp only: take_replicate) simp
  have c: "cstring (replicate 255 (CHR ''a''))"
    by (simp add: cstring_def NUL_def)
  from long_message_truncated
         [of printf_render "''%s''" "[Str_arg (replicate 300 (CHR ''a''))]" "replicate 300 (CHR ''a'')" stale]
       r l t c
  have "log_output printf_render stale ''%s'' [Str_arg (replicate 300 (CHR ''a''))]
          = Inr [replicate 255 (CHR ''a'')]"
    by auto
  with r show ?thesis by (rule conjI)
qed

text \<open>
  C3 as written fails when the result is longer than an \<open>int\<close> can count: a format of
  \<open>2^31\<close> letters renders to itself, \<open>vsnprintf\<close> returns a negative value, and the
  trampoline takes the fallback, so the sink reads all \<open>2^31\<close> characters.
\<close>

theorem oversized_result_falls_back:
  "printf_render (replicate 2147483648 (CHR ''a'')) [] = Some (replicate 2147483648 (CHR ''a''))
   \<and> 255 < length (replicate 2147483648 (CHR ''a''))
   \<and> vsnprintf printf_render (uninitialised stale 256) 256 (replicate 2147483648 (CHR ''a'')) []
       = Inr (- 1, uninitialised stale 256)
   \<and> log_output printf_render stale (replicate 2147483648 (CHR ''a'')) []
       = Inr [replicate 2147483648 (CHR ''a'')]
   \<and> length (replicate 2147483648 (CHR ''a'')) \<noteq> 255"
proof -
  define big where "big = replicate 2147483648 (CHR ''a'')"
  have l: "length big = 2147483648" by (simp only: big_def length_replicate)
  have p: "CHR ''%'' \<notin> set big" by (simp only: big_def in_set_replicate) simp
  have r: "printf_render big [] = Some big" using p by (rule printf_render_plain)
  have o: "INT_MAX < length big" by (simp add: l INT_MAX_def)
  have "vsnprintf printf_render (uninitialised stale 256) 256 big [] = Inr (- 1, uninitialised stale 256)"
    using r o by (simp add: vsnprintf_256)
  moreover have "log_output printf_render stale big [] = Inr [big]"
    using r o by (simp add: log_output_cases)
  moreover have "255 < length big" "length big \<noteq> 255" by (simp_all add: l)
  ultimately show ?thesis using r unfolding big_def by blast
qed

text \<open>
  C4. Every call of the trampoline returns normally: it ends without a write outside its
  buffer and with one string delivered to the sink, whatever \<open>vsnprintf\<close> returned; when
  \<open>vsnprintf\<close> returned a value that is at most 0, the failure goes no further than the
  choice of the string, which is then the format string.
\<close>

theorem never_fails_outward:
  "\<exists>ret b s. vsnprintf render (uninitialised junk 256) 256 fmt ap = Inr (ret, b)
     \<and> (\<forall>e. wl_log_trampoline_to_rust_client render junk fmt ap \<noteq> Inl e)
     \<and> log_output render junk fmt ap = Inr [s]
     \<and> (ret \<le> 0 \<longrightarrow> s = fmt)"
  by (simp add: log_output_def wl_log_trampoline_to_rust_client_def vsnprintf_256
      split: option.split)

theorem never_fails_outward_witness:
  "printf_render ''100%'' [] = None
   \<and> vsnprintf printf_render (uninitialised stale 256) 256 ''100%'' []
       = Inr (- 1, uninitialised stale 256)
   \<and> log_output printf_render stale ''100%'' [] = Inr [''100%'']"
proof -
  have r: "printf_render ''100%'' [] = None" by simp
  have v: "vsnprintf printf_render (uninitialised stale 256) 256 ''100%'' []
             = Inr (- 1, uninitialised stale 256)"
    using r by (simp add: vsnprintf_256)
  from never_fails_outward [of printf_render stale "''100%''" "[]"]
  obtain ret b s where
    "vsnprintf printf_render (uninitialised stale 256) 256 ''100%'' [] = Inr (ret, b)"
    "log_output printf_render stale ''100%'' [] = Inr [s]" "ret \<le> 0 \<longrightarrow> s = ''100%''"
    by blast
  with v have "log_output printf_render stale ''100%'' [] = Inr [''100%'']" by simp
  with r v show ?thesis by blast
qed

text \<open>
  C5 (amended). For every format string of at most 255 characters that contains no
  conversion specification (no \<open>%\<close> character) and is called with no arguments, the sink
  reads the format string verbatim. A format string is a C string, with no NUL byte
  inside. Longer format strings are excluded: the claim as written covers them and
  fails there, as shown after the witness.
\<close>

theorem plain_format_verbatim:
  assumes "CHR ''%'' \<notin> set fmt" and "cstring fmt" and "length fmt \<le> 255"
  shows "log_output printf_render junk fmt [] = Inr [fmt]"
proof -
  have "printf_render fmt [] = Some fmt" using assms(1) by (rule printf_render_plain)
  moreover have "take 255 fmt = fmt" using assms(3) by simp
  ultimately show ?thesis using assms(2) by (simp add: log_output_cases c_str_cstring)
qed

theorem plain_format_verbatim_witness:
  "log_output printf_render stale ''no args here'' [] = Inr [''no args here'']"
proof -
  have "CHR ''%'' \<notin> set ''no args here''" by simp
  moreover have "cstring ''no args here''" by (simp add: cstring_def NUL_def)
  moreover have "length ''no args here'' \<le> 255" by simp
  ultimately show ?thesis by (rule plain_format_verbatim)
qed

text \<open>
  C5 as written fails for a format string of 256 letters: it has no conversion
  specification, and the sink reads its first 255 letters only.
\<close>

theorem long_plain_format_cut:
  "CHR ''%'' \<notin> set (replicate 256 (CHR ''a''))
   \<and> log_output printf_render stale (replicate 256 (CHR ''a'')) [] = Inr [replicate 255 (CHR ''a'')]
   \<and> replicate 255 (CHR ''a'') \<noteq> replicate 256 (CHR ''a'')"
proof -
  define fmt where "fmt = replicate 256 (CHR ''a'')"
  have l: "length fmt = 256" by (simp only: fmt_def length_replicate)
  have p: "CHR ''%'' \<notin> set fmt" by (simp only: fmt_def in_set_replicate) simp
  have r: "printf_render fmt [] = Some fmt" using p by (rule printf_render_plain)
  have t: "take 255 fmt = replicate 255 (CHR ''a'')"
    unfolding fmt_def by (simp only: take_replicate) simp
  have c: "cstring (replicate 255 (CHR ''a''))" by (simp add: cstring_def NUL_def)
  have n: "fmt \<noteq> []" "\<not> INT_MAX < length fmt" using l by (auto simp: INT_MAX_def)
  have "log_output printf_render stale fmt [] = Inr [replicate 255 (CHR ''a'')]"
    using r n t c by (simp add: log_output_cases c_str_cstring)
  moreover have "replicate 255 (CHR ''a'') \<noteq> fmt"
    using l by (metis length_replicate numeral_eq_iff semiring_norm(88))
  ultimately show ?thesis using p unfolding fmt_def by blast
qed

text \<open>
  C6. When the fully substituted result is the empty string, as for \<open>%s\<close> with an empty
  string argument, \<open>vsnprintf\<close> returns 0, the trampoline takes the failure branch, and
  the sink is given the format string, not the empty result.
\<close>

theorem empty_result_takes_fallback:
  assumes "render fmt ap = Some []"
  shows "\<exists>b. vsnprintf render (uninitialised junk 256) 256 fmt ap = Inr (0, b)
           \<and> wl_log_trampoline_to_rust_client render junk fmt ap
               = Inr [wl_log_rust_logger_client (Fmt_ptr fmt)]
           \<and> log_output render junk fmt ap = Inr [fmt]"
  using assms by (simp add: vsnprintf_256 trampoline_empty log_output_cases)

theorem empty_result_takes_fallback_witness:
  "printf_render ''%s'' [Str_arg ''''] = Some ''''
   \<and> wl_log_trampoline_to_rust_client printf_render stale ''%s'' [Str_arg '''']
       = Inr [wl_log_rust_logger_client (Fmt_ptr ''%s'')]"
proof -
  have r: "printf_render ''%s'' [Str_arg ''''] = Some ''''" by simp
  from empty_result_takes_fallback [of printf_render "''%s''" "[Str_arg '''']" stale] r
  show ?thesis by blast
qed

text \<open>
  C7. In every call \<open>vsnprintf\<close> is asked to store at most 256 bytes, the terminator
  included, and the store stays inside the 256-byte buffer: it never fails with a write
  out of bounds and the buffer keeps its 256 bytes. In the success branch the buffer
  passed to the sink has a NUL byte among its 256 bytes, so the string read there ends
  inside the buffer, after at most 255 characters.
\<close>

theorem buffer_write_in_bounds:
  "\<exists>ret b. vsnprintf render (uninitialised junk 256) 256 fmt ap = Inr (ret, b)
     \<and> length b = 256
     \<and> (\<forall>out. length (vsnprintf_bytes 256 out) \<le> 256)
     \<and> (0 < ret \<longrightarrow>
          wl_log_trampoline_to_rust_client render junk fmt ap
            = Inr [wl_log_rust_logger_client (Buffer_ptr b)]
          \<and> (\<exists>i<256. b ! i = NUL)
          \<and> length (received (wl_log_rust_logger_client (Buffer_ptr b))) \<le> 255)"
proof (cases "render fmt ap")
  case None
  then show ?thesis by (simp add: vsnprintf_256 length_vsnprintf_bytes)
next
  case (Some out)
  show ?thesis
  proof (cases "INT_MAX < length out")
    case True
    with Some show ?thesis by (simp add: vsnprintf_256 length_vsnprintf_bytes)
  next
    case False
    define b where "b = take 255 out @ NUL # drop (Suc (min (length out) 255)) (uninitialised junk 256)"
    have v: "vsnprintf render (uninitialised junk 256) 256 fmt ap = Inr (int (length out), b)"
      using Some False by (simp add: vsnprintf_256 b_def)
    have lb: "length b = 256" and nul: "b ! min (length out) 255 = NUL"
      using rendered_buffer [OF b_def] by simp_all
    have "min (length out) 255 < 256" by simp
    with nul have ex: "\<exists>i<256. b ! i = NUL" by blast
    have "c_str b = c_str (take 255 out)" unfolding b_def by (rule c_str_cut)
    moreover have "length (c_str (take 255 out)) \<le> length (take 255 out)"
      unfolding c_str_def by (rule length_takeWhile_le)
    ultimately have lr: "length (received (wl_log_rust_logger_client (Buffer_ptr b))) \<le> 255"
      by simp
    have "0 < int (length out) \<longrightarrow>
            wl_log_trampoline_to_rust_client render junk fmt ap
              = Inr [wl_log_rust_logger_client (Buffer_ptr b)]"
      using Some False by (simp add: wl_log_trampoline_to_rust_client_def vsnprintf_256 b_def)
    with v lb ex lr show ?thesis by (simp add: length_vsnprintf_bytes)
  qed
qed

theorem buffer_write_in_bounds_witness:
  "\<exists>b. wl_log_trampoline_to_rust_client printf_render stale ''%u items'' [Uint_arg 7]
          = Inr [wl_log_rust_logger_client (Buffer_ptr b)]
       \<and> length b = 256 \<and> (\<exists>i<256. b ! i = NUL)"
proof -
  have r: "printf_render ''%u items'' [Uint_arg 7] = Some ''7 items''" by code_simp
  from buffer_write_in_bounds [of printf_render stale "''%u items''" "[Uint_arg 7]"]
  obtain ret b where
    v: "vsnprintf printf_render (uninitialised stale 256) 256 ''%u items'' [Uint_arg 7] = Inr (ret, b)"
    and lb: "length b = 256"
    and pos: "0 < ret \<longrightarrow>
          wl_log_trampoline_to_rust_client printf_render stale ''%u items'' [Uint_arg 7]
            = Inr [wl_log_rust_logger_client (Buffer_ptr b)]
          \<and> (\<exists>i<256. b ! i = NUL)
          \<and> length (received (wl_log_rust_logger_client (Buffer_ptr b))) \<le> 255"
    by blast
  have "ret = 7" using v r by (simp add: vsnprintf_256 INT_MAX_def)
  with pos lb show ?thesis by auto
qed

text \<open>
  C8. In every call the sink is called exactly once, whether formatting succeeds or
  fails: the calls made are a list of one element.
\<close>

theorem sink_called_exactly_once:
  "\<exists>calls. wl_log_trampoline_to_rust_client render junk fmt ap = Inr calls \<and> length calls = 1"
  by (simp add: wl_log_trampoline_to_rust_client_def vsnprintf_256 split: option.split)

text \<open>
  C9. Two calls with the same format string and the same arguments deliver the same
  string to the sink: it does not depend on what the uninitialised buffer held before,
  which is all that can differ between the two calls.
\<close>

theorem trampoline_deterministic:
  "log_output render junk1 fmt ap = log_output render junk2 fmt ap"
  by (simp add: log_output_cases)

end
